theory Spec2Isabelle
  imports Complex_Main
begin

section \<open>JavaScript numbers\<close>

text \<open>
  A JavaScript number is an IEEE 754 binary64 value. The finite ones are carried by their
  exact rational value; the two zeros are identified, since none of the operations used
  by the components below (truthiness, multiplication by 100, \<open>toFixed(0)\<close>, the text
  React renders) tells them apart.
\<close>

datatype number = NaN | PosInfinity | NegInfinity | Finite rat

text \<open>The number of binary digits of a positive integer.\<close>

function bits :: "int \<Rightarrow> int" where
  "bits n = (if n \<le> 0 then 0 else 1 + bits (n div 2))"
  by pat_completeness auto

termination
  by (relation "measure nat") auto

declare bits.simps [simp del]

definition pow2 :: "int \<Rightarrow> rat" where
  "pow2 e = (if 0 \<le> e then 2 ^ nat e else 1 / 2 ^ nat (- e))"

definition floor_log2 :: "rat \<Rightarrow> int" where
  "floor_log2 a =
     (if 1 \<le> a then bits \<lfloor>a\<rfloor> - 1
      else let k = bits \<lfloor>1 / a\<rfloor> - 1
           in if a = pow2 (- k) then - k else - k - 1)"

definition round_half_even :: "rat \<Rightarrow> int" where
  "round_half_even x =
     (let f = \<lfloor>x\<rfloor>; d = x - of_int f
      in if d < 1 / 2 then f else if 1 / 2 < d then f + 1
         else if even f then f else f + 1)"

text \<open>
  Rounding of an exact value to binary64, round-to-nearest, ties to even: 53 significant
  bits, least exponent \<open>-1022\<close> (below it the spacing stays \<open>2^-1074\<close>), overflow to
  an infinity from \<open>2^1024\<close> on.
\<close>

definition to_double :: "rat \<Rightarrow> number" where
  "to_double r =
     (if r = 0 then Finite 0
      else let a = \<bar>r\<bar>;
               e = max (floor_log2 a) (- 1022);
               q = pow2 (e - 52);
               m = of_int (round_half_even (a / q)) * q
           in if pow2 1024 \<le> m then (if r < 0 then NegInfinity else PosInfinity)
              else Finite (if r < 0 then - m else m))"

text \<open>The operator \<open>*\<close> on numbers (Number::multiply).\<close>

fun multiply :: "number \<Rightarrow> number \<Rightarrow> number" where
  "multiply NaN _ = NaN"
| "multiply _ NaN = NaN"
| "multiply (Finite x) (Finite y) = to_double (x * y)"
| "multiply (Finite x) PosInfinity =
     (if x = 0 then NaN else if x < 0 then NegInfinity else PosInfinity)"
| "multiply (Finite x) NegInfinity =
     (if x = 0 then NaN else if x < 0 then PosInfinity else NegInfinity)"
| "multiply PosInfinity (Finite y) =
     (if y = 0 then NaN else if y < 0 then NegInfinity else PosInfinity)"
| "multiply NegInfinity (Finite y) =
     (if y = 0 then NaN else if y < 0 then PosInfinity else NegInfinity)"
| "multiply PosInfinity PosInfinity = PosInfinity"
| "multiply PosInfinity NegInfinity = NegInfinity"
| "multiply NegInfinity PosInfinity = NegInfinity"
| "multiply NegInfinity NegInfinity = PosInfinity"

text \<open>ToBoolean on a number: false for the zeros and NaN.\<close>

fun ToBoolean :: "number \<Rightarrow> bool" where
  "ToBoolean NaN = False"
| "ToBoolean (Finite r) = (r \<noteq> 0)"
| "ToBoolean _ = True"

subsection \<open>Decimal digits\<close>

text \<open>The decimal digits of an integer that is not negative, and of any integer.\<close>

definition digit :: "int \<Rightarrow> char" where
  "digit d = char_of (48 + d)"

function decimal :: "int \<Rightarrow> string" where
  "decimal n = (if n < 10 then [digit n] else decimal (n div 10) @ [digit (n mod 10)])"
  by pat_completeness auto

termination
  by (relation "measure nat") auto

declare decimal.simps [simp del]

definition show_int :: "int \<Rightarrow> string" where
  "show_int i = (if i < 0 then CHR ''-'' # decimal (- i) else decimal i)"

text \<open>
  Number::toString. The digits of a positive finite number (the shortest decimal that
  reads back as the same binary64 value, in plain or exponent notation) are left to the
  parameter \<open>digits\<close>; the other cases are written out.
\<close>

definition Number_toString :: "(rat \<Rightarrow> string) \<Rightarrow> number \<Rightarrow> string" where
  "Number_toString digits x =
     (case x of
        NaN \<Rightarrow> ''NaN''
      | PosInfinity \<Rightarrow> ''Infinity''
      | NegInfinity \<Rightarrow> ''-Infinity''
      | Finite r \<Rightarrow>
          if r = 0 then ''0''
          else if r < 0 then CHR ''-'' # digits (- r) else digits r)"

text \<open>
  \<open>x.toFixed(0)\<close> (Number.prototype.toFixed with no fraction digits): a non-finite
  \<open>x\<close> is printed by Number::toString; otherwise the sign is split off, a magnitude
  of \<open>10^21\<close> or more is printed by Number::toString, and a smaller one is printed as
  the nearest integer, the larger one of two equally near.
\<close>

definition toFixed0 :: "(rat \<Rightarrow> string) \<Rightarrow> number \<Rightarrow> string" where
  "toFixed0 digits x =
     (case x of
        Finite r \<Rightarrow>
          (let s = (if r < 0 then ''-'' else '''');
               a = \<bar>r\<bar>
           in if 10 ^ 21 \<le> a then s @ Number_toString digits (Finite a)
              else s @ decimal \<lfloor>a + 1 / 2\<rfloor>)
      | _ \<Rightarrow> Number_toString digits x)"

section \<open>MessageBubble: the source lines\<close>

text \<open>
  The interface \<open>Source\<close> of the frontend's types: \<open>score\<close> is optional, so it
  holds a number or is \<open>undefined\<close> (\<open>None\<close>).
\<close>

record Source =
  "file" :: string
  project :: string
  source_type :: string
  score :: "number option"

text \<open>
  What React puts into the document: text nodes, the icon components of lucide-react, and
  elements with their tag, class name and children.
\<close>

datatype node = Text string | Icon string string | Element string string "node list"

fun text_content :: "node \<Rightarrow> string" where
  "text_content (Text s) = s"
| "text_content (Icon name cls) = []"
| "text_content (Element tag cls children) = concat (map text_content children)"

text \<open>
  A string child is rendered as a text node unless it is empty; a number child is always
  rendered, as the text of the number; \<open>undefined\<close>, \<open>null\<close> and booleans render
  nothing.
\<close>

definition string_child :: "string \<Rightarrow> node list" where
  "string_child s = (if s = [] then [] else [Text s])"

definition number_child :: "(rat \<Rightarrow> string) \<Rightarrow> number \<Rightarrow> node list" where
  "number_child digits n = [Text (Number_toString digits n)]"

text \<open>The bullet character U+2022, in UTF-8.\<close>

definition bullet :: string where
  "bullet = [char_of (0xE2 :: nat), char_of (0x80 :: nat), char_of (0xA2 :: nat)]"

text \<open>
  The expression \<open>{source.score && (<>...</>)}\<close>: the operator \<open>&&\<close> returns its left
  operand when that is falsy, and the fragment otherwise.
\<close>

definition render_score :: "(rat \<Rightarrow> string) \<Rightarrow> number option \<Rightarrow> node list" where
  "render_score digits sc =
     (case sc of
        None \<Rightarrow> []
      | Some s \<Rightarrow>
          if ToBoolean s
          then [Element ''span'' ''text-gray-400'' [Text bullet],
                Element ''span'' []
                  ([Text ''Score: ''] @
                   string_child (toFixed0 digits (multiply s (Finite 100))) @
                   [Text ''%''])]
          else number_child digits s)"

text \<open>The callback of \<open>message.sources.map\<close>: one line per source.\<close>

definition render_source :: "(rat \<Rightarrow> string) \<Rightarrow> Source \<Rightarrow> node" where
  "render_source digits source =
     Element ''div'' ''flex items-center space-x-2 text-xs text-gray-600''
       ([Icon ''ExternalLink'' ''h-3 w-3'',
         Element ''span'' ''font-medium'' (string_child (file source)),
         Element ''span'' ''text-gray-400'' [Text bullet],
         Element ''span'' [] (string_child (project source))] @
        render_score digits (score source))"

section \<open>Values read from JSON\<close>

datatype exception = SyntaxError | TypeError | URIError

text \<open>
  What \<open>JSON.parse\<close> returns. An object is an association list with one entry for each
  of its keys, read with \<open>map_of\<close>.
\<close>

datatype json =
    JNull
  | JBool bool
  | JNumber number
  | JString string
  | JArray "json list"
  | JObject "(string \<times> json) list"

text \<open>
  An expression of type \<open>any\<close> holds a JSON value or \<open>undefined\<close> (\<open>None\<close>).
  Reading a property of \<open>undefined\<close> or \<open>null\<close> throws a TypeError; an object has the
  properties of its entries; strings, numbers, booleans and arrays have none of the
  properties the components read (\<open>type\<close>, \<open>response\<close>, \<open>sources\<close>, \<open>microsite\<close>,
  \<open>artifact\<close>, \<open>filename\<close>, \<open>error\<close>), and neither has \<open>Object.prototype\<close>.
\<close>

fun property :: "json option \<Rightarrow> string \<Rightarrow> exception + json option" where
  "property None k = Inl TypeError"
| "property (Some JNull) k = Inl TypeError"
| "property (Some (JObject kvs)) k = Inr (map_of kvs k)"
| "property (Some _) k = Inr None"

text \<open>
  The string a template literal makes of a value (ToString). An object is converted by
  its \<open>toString\<close> method: a parsed object that has a key \<open>toString\<close> of its own hides
  the method of \<open>Object.prototype\<close> behind a value that cannot be called, and neither
  can its \<open>valueOf\<close>, if it has one, while the inherited \<open>valueOf\<close> returns the object
  itself, so the conversion throws a TypeError; any other object gives
  \<open>[object Object]\<close>. An array is joined with commas, its \<open>null\<close> elements giving the
  empty string and the first element that cannot be converted its exception.
\<close>

fun ToString :: "(rat \<Rightarrow> string) \<Rightarrow> json \<Rightarrow> exception + string"
  and join :: "(rat \<Rightarrow> string) \<Rightarrow> json list \<Rightarrow> exception + string" where
  "ToString digits JNull = Inr ''null''"
| "ToString digits (JBool b) = Inr (if b then ''true'' else ''false'')"
| "ToString digits (JNumber n) = Inr (Number_toString digits n)"
| "ToString digits (JString s) = Inr s"
| "ToString digits (JArray xs) = join digits xs"
| "ToString digits (JObject kvs) =
     (if map_of kvs ''toString'' = None then Inr ''[object Object]'' else Inl TypeError)"
| "join digits [] = Inr []"
| "join digits (x # xs) =
     (case (case x of JNull \<Rightarrow> Inr [] | _ \<Rightarrow> ToString digits x) of
        Inl e \<Rightarrow> Inl e
      | Inr s \<Rightarrow>
          if xs = [] then Inr s
          else (case join digits xs of Inl e \<Rightarrow> Inl e | Inr t \<Rightarrow> Inr (s @ '','' @ t)))"

definition substitution :: "(rat \<Rightarrow> string) \<Rightarrow> json option \<Rightarrow> exception + string" where
  "substitution digits v = (case v of None \<Rightarrow> Inr ''undefined'' | Some j \<Rightarrow> ToString digits j)"

text \<open>\<open>a || d\<close> for a string \<open>a\<close> that may be missing: \<open>d\<close> unless \<open>a\<close> is a non-empty string.\<close>

definition or_default :: "string option \<Rightarrow> string \<Rightarrow> string" where
  "or_default a d = (case a of None \<Rightarrow> d | Some s \<Rightarrow> if s = [] then d else s)"

subsection \<open>String.prototype.trim\<close>

text \<open>
  Strings are lists of UTF-8 bytes. \<open>trim\<close> strips the WhiteSpace and LineTerminator
  code points: the six ASCII ones, U+00A0, U+1680, U+2000 to U+200A, U+2028, U+2029,
  U+202F, U+205F, U+3000 and U+FEFF. \<open>blank s\<close> holds when \<open>s.trim()\<close> is empty.
\<close>

definition whitespace1 :: "char list" where
  "whitespace1 = map char_of [0x09, 0x0A, 0x0B, 0x0C, 0x0D, 0x20 :: nat]"

definition whitespace2 :: "string list" where
  "whitespace2 = [map char_of [0xC2, 0xA0 :: nat]]"

definition whitespace3 :: "string list" where
  "whitespace3 =
     map (map char_of)
       ([[0xE1, 0x9A, 0x80 :: nat]] @
        map (\<lambda>b. [0xE2, 0x80, b]) [0x80, 0x81, 0x82, 0x83, 0x84, 0x85, 0x86, 0x87, 0x88, 0x89, 0x8A] @
        [[0xE2, 0x80, 0xA8], [0xE2, 0x80, 0xA9], [0xE2, 0x80, 0xAF], [0xE2, 0x81, 0x9F],
         [0xE3, 0x80, 0x80], [0xEF, 0xBB, 0xBF]])"

fun blank :: "string \<Rightarrow> bool" where
  "blank [] = True"
| "blank [c] = (c \<in> set whitespace1)"
| "blank [c, c2] =
     (if c \<in> set whitespace1 then blank [c2] else [c, c2] \<in> set whitespace2)"
| "blank (c # c2 # c3 # cs) =
     (if c \<in> set whitespace1 then blank (c2 # c3 # cs)
      else if [c, c2] \<in> set whitespace2 then blank (c3 # cs)
      else if [c, c2, c3] \<in> set whitespace3 then blank cs
      else False)"

declare blank.simps [simp del]

section \<open>ChatInterface\<close>

text \<open>
  The interfaces of the frontend's types. A message's \<open>type\<close> is one of the strings
  \<open>user\<close>, \<open>assistant\<close>, \<open>artifact_generated\<close>, \<open>error\<close>. The fields filled from a
  parsed envelope hold whatever the envelope holds. \<open>timestamp\<close> is the instant read by
  \<open>new Date()\<close>, in milliseconds; the field holds its \<open>toISOString()\<close>.
\<close>

record Message =
  message_id :: string
  message_type :: string
  content :: "json option"
  timestamp :: int
  sources :: "json option"
  microsite :: "json option"
  artifact :: "json option"

text \<open>
  The application creates its user with \<open>id\<close>, \<open>name\<close> and \<open>email\<close> only, so
  \<open>username\<close> and \<open>tenant_id\<close> may be missing.
\<close>

record User =
  user_id :: string
  username :: "string option"
  name :: string
  email :: string
  tenant_id :: "string option"

record ChatInterfaceProps =
  selectedProject :: string
  user :: "User option"

text \<open>
  The state of the component. \<open>websocket\<close> holds the URL of the WebSocket stored by
  \<open>setWebsocket\<close>; \<open>sent\<close> lists the frames passed to \<open>websocket.send\<close>, oldest first.
\<close>

record ChatInterface =
  messages :: "Message list"
  inputMessage :: string
  isLoading :: bool
  websocket :: "string option"
  sent :: "string list"

definition initial :: ChatInterface where
  "initial = \<lparr>messages = [], inputMessage = [], isLoading = False, websocket = None, sent = []\<rparr>"

subsection \<open>Opening the connection\<close>

text \<open>
  \<open>Date.now()\<close> is an integer number of milliseconds, far below \<open>2^53\<close> in magnitude,
  so a template literal prints it with all its decimal digits.
\<close>

definition sessionId :: "int \<Rightarrow> string" where
  "sessionId now = ''session_'' @ show_int now"

definition wsUrl :: "string option \<Rightarrow> string" where
  "wsUrl VITE_WS_URL = or_default VITE_WS_URL ''ws://localhost:8000''"

text \<open>The URL of the WebSocket the effect creates.\<close>

definition connect :: "string option \<Rightarrow> int \<Rightarrow> string" where
  "connect VITE_WS_URL now = wsUrl VITE_WS_URL @ ''/ws/'' @ sessionId now"

definition onopen :: "ChatInterfaceProps \<Rightarrow> string \<Rightarrow> int \<Rightarrow> int \<Rightarrow> ChatInterface \<Rightarrow> ChatInterface" where
  \<open>onopen p ws now date st =
     (let initialMessage =
            \<lparr>message_id = ''sys_msg_'' @ show_int now,
             message_type = ''assistant'',
             content = Some (JString (''Hello '' @
               or_default (map_option name (user p)) ''User'' @
               ''! I'm your PMO Assistant. Ask me about your projects or request an artifact (e.g., "Generate an Excel risk log").'')),
             timestamp = date,
             sources = None, microsite = None, artifact = None\<rparr>
      in st\<lparr>websocket := Some ws, messages := messages st @ [initialMessage]\<rparr>)\<close>

subsection \<open>Inbound frames\<close>

text \<open>
  \<open>ws.onmessage\<close>. \<open>event_data\<close> is the text of the frame, \<open>now\<close> the reading of
  \<open>Date.now()\<close> and \<open>date\<close> that of \<open>new Date()\<close>. An exception leaves the handler
  before any state is set.
\<close>

definition onmessage ::
  "(string \<Rightarrow> exception + json) \<Rightarrow> (rat \<Rightarrow> string) \<Rightarrow> int \<Rightarrow> int \<Rightarrow>
   ChatInterface \<Rightarrow> string \<Rightarrow> exception + ChatInterface" where
  \<open>onmessage JSON_parse digits now date st event_data =
     (case JSON_parse event_data of
        Inl e \<Rightarrow> Inl e
      | Inr d \<Rightarrow>
         (let data = Some d in
          (case property data ''type'' of
            Inl e \<Rightarrow> Inl e
          | Inr ty \<Rightarrow>
              if ty = Some (JString ''response'') then
                (case property data ''response'' of Inl e \<Rightarrow> Inl e | Inr response \<Rightarrow>
                (case property data ''sources'' of Inl e \<Rightarrow> Inl e | Inr srcs \<Rightarrow>
                (case property data ''microsite'' of Inl e \<Rightarrow> Inl e | Inr site \<Rightarrow>
                   (let assistantMessage =
                          \<lparr>message_id = ''msg_'' @ show_int now @ ''_resp'',
                           message_type = ''assistant'',
                           content = response,
                           timestamp = date,
                           sources = srcs, microsite = site, artifact = None\<rparr>
                    in Inr (st\<lparr>messages := messages st @ [assistantMessage],
                               isLoading := False\<rparr>)))))
              else if ty = Some (JString ''artifact_generated'') then
                (case property data ''artifact'' of Inl e \<Rightarrow> Inl e | Inr art \<Rightarrow>
                (case property art ''filename'' of Inl e \<Rightarrow> Inl e | Inr filename \<Rightarrow>
                (case substitution digits filename of Inl e \<Rightarrow> Inl e | Inr shown \<Rightarrow>
                   (let artifactMessage =
                          \<lparr>message_id = ''msg_'' @ show_int now @ ''_art'',
                           message_type = ''artifact_generated'',
                           content = Some (JString (''Your requested artifact, "'' @
                             shown @
                             ''", is ready! Click the link below to download.'')),
                           timestamp = date,
                           sources = None, microsite = None, artifact = art\<rparr>
                    in Inr (st\<lparr>messages := messages st @ [artifactMessage]\<rparr>)))))
              else if ty = Some (JString ''error'') then
                (case property data ''error'' of Inl e \<Rightarrow> Inl e | Inr err \<Rightarrow>
                   (let errorMessage =
                          \<lparr>message_id = ''msg_'' @ show_int now @ ''_err'',
                           message_type = ''assistant'',
                           content = err,
                           timestamp = date,
                           sources = None, microsite = None, artifact = None\<rparr>
                    in Inr (st\<lparr>messages := messages st @ [errorMessage],
                               isLoading := False\<rparr>)))
              else Inr st)))\<close>

definition onerror :: "ChatInterface \<Rightarrow> ChatInterface" where
  "onerror st = st\<lparr>isLoading := False\<rparr>"

subsection \<open>Sending\<close>

text \<open>
  \<open>sendMessage\<close> is created anew by every render and reads \<open>inputMessage\<close>,
  \<open>websocket\<close> and \<open>isLoading\<close> as that render saw them: \<open>c\<close> is the state of the
  render the function belongs to, \<open>st\<close> the state of the component when it is called.
  \<open>setMessages\<close> appends to the messages of \<open>st\<close>, the other setters store fixed values.
\<close>

definition sendMessage ::
  "(json \<Rightarrow> string) \<Rightarrow> ChatInterfaceProps \<Rightarrow> int \<Rightarrow> int \<Rightarrow> ChatInterface \<Rightarrow>
   ChatInterface \<Rightarrow> ChatInterface" where
  "sendMessage JSON_stringify p now date c st =
     (if blank (inputMessage c) \<or> websocket c = None \<or> isLoading c then st
      else
        let userMessage =
              \<lparr>message_id = ''msg_'' @ show_int now @ ''_user'',
               message_type = ''user'',
               content = Some (JString (inputMessage c)),
               timestamp = date,
               sources = None, microsite = None, artifact = None\<rparr>;
            projectIds = (if selectedProject p \<noteq> [] then [JString (selectedProject p)] else [])
        in st\<lparr>messages := messages st @ [userMessage],
              isLoading := True,
              sent := sent st @
                [JSON_stringify (JObject
                   [(''message'', JString (inputMessage c)),
                    (''project_context'', JObject
                       [(''tenant_id'',
                           JString (or_default (Option.bind (user p) tenant_id) ''demo'')),
                        (''project_ids'', JArray projectIds),
                        (''selected_project'', JString (selectedProject p))]),
                    (''type'', JString ''chat'')])],
              inputMessage := []\<rparr>)"

subsection \<open>A session as a sequence of events\<close>

text \<open>
  The events of the component: the socket opens, the user edits the text area, the user
  presses the send button or Enter, a frame arrives, the socket reports an error, React
  renders the component. Each carries what its handler reads: the props of its render
  and the clock. An exception thrown by \<open>ws.onmessage\<close> is reported by the browser and
  leaves the state as it was.
\<close>

datatype event =
    Open ChatInterfaceProps string int int
  | Change string
  | Send ChatInterfaceProps int int
  | Receive string int int
  | Error
  | Render

text \<open>The built-in functions the handlers call.\<close>

record runtime =
  rt_parse :: "string \<Rightarrow> exception + json"
  rt_stringify :: "json \<Rightarrow> string"
  rt_digits :: "rat \<Rightarrow> string"

definition receive :: "runtime \<Rightarrow> int \<Rightarrow> int \<Rightarrow> ChatInterface \<Rightarrow> string \<Rightarrow> ChatInterface" where
  "receive rt now date st event_data =
     (case onmessage (rt_parse rt) (rt_digits rt) now date st event_data of
        Inl e \<Rightarrow> st
      | Inr st' \<Rightarrow> st')"

text \<open>
  The component between two events: its state, and the state of its last render, which
  is what the \<open>sendMessage\<close> of the button and of the text area reads. The handlers of
  the socket set the state without reading it, and so does the text area's \<open>onChange\<close>.
\<close>

record session =
  current :: ChatInterface
  rendered :: ChatInterface

definition mounted :: session where
  "mounted = \<lparr>current = initial, rendered = initial\<rparr>"

fun step :: "runtime \<Rightarrow> session \<Rightarrow> event \<Rightarrow> session" where
  "step rt s (Open p ws now date) = s\<lparr>current := onopen p ws now date (current s)\<rparr>"
| "step rt s (Change v) = s\<lparr>current := (current s)\<lparr>inputMessage := v\<rparr>\<rparr>"
| "step rt s (Send p now date) =
     s\<lparr>current := sendMessage (rt_stringify rt) p now date (rendered s) (current s)\<rparr>"
| "step rt s (Receive event_data now date) =
     s\<lparr>current := receive rt now date (current s) event_data\<rparr>"
| "step rt s Error = s\<lparr>current := onerror (current s)\<rparr>"
| "step rt s Render = s\<lparr>rendered := current s\<rparr>"

text \<open>
  The type of a well-formed parsed frame, and the frames that answer a chat message: the
  response and the error envelopes.
\<close>

definition envelope_type :: "runtime \<Rightarrow> string \<Rightarrow> json option" where
  "envelope_type rt event_data =
     (case rt_parse rt event_data of
        Inl e \<Rightarrow> None
      | Inr d \<Rightarrow> (case property (Some d) ''type'' of Inl e \<Rightarrow> None | Inr ty \<Rightarrow> ty))"

definition answer :: "runtime \<Rightarrow> string \<Rightarrow> bool" where
  "answer rt event_data =
     (envelope_type rt event_data = Some (JString ''response'') \<or>
      envelope_type rt event_data = Some (JString ''error''))"

text \<open>
  The number of chat messages in flight: a frame passed to \<open>websocket.send\<close> adds one,
  an answering envelope takes one away, if there is one.
\<close>

fun in_flight :: "runtime \<Rightarrow> session \<Rightarrow> nat \<Rightarrow> event \<Rightarrow> nat" where
  "in_flight rt s k (Send p now date) =
     k + (length (sent (current (step rt s (Send p now date)))) - length (sent (current s)))"
| "in_flight rt s k (Receive event_data now date) =
     (if answer rt event_data then k - 1 else k)"
| "in_flight rt s k _ = k"

fun run :: "runtime \<Rightarrow> session \<times> nat \<Rightarrow> event list \<Rightarrow> session \<times> nat" where
  "run rt (s, k) [] = (s, k)"
| "run rt (s, k) (ev # evs) = run rt (step rt s ev, in_flight rt s k ev) evs"

text \<open>
  The sequences of events in which the component is rendered between any two calls of
  \<open>sendMessage\<close>: \<open>fresh\<close> tells whether it has been since the last call.
\<close>

fun renders_between_sends :: "bool \<Rightarrow> event list \<Rightarrow> bool" where
  "renders_between_sends fresh [] = True"
| "renders_between_sends fresh (Render # evs) = renders_between_sends True evs"
| "renders_between_sends fresh (Send p now date # evs) =
     (fresh \<and> renders_between_sends False evs)"
| "renders_between_sends fresh (ev # evs) = renders_between_sends fresh evs"

section \<open>The microsite's App\<close>

text \<open>
  The dashboard data is the built-in \<open>sampleData\<close>, which holds icon components and so
  is no JSON value, or whatever \<open>JSON.parse\<close> returned.
\<close>

datatype dashboard = sampleData | parsedData json

record App =
  dashboardData :: dashboard
  app_isLoading :: bool

definition App_initial :: App where
  "App_initial = \<lparr>dashboardData = sampleData, app_isLoading = False\<rparr>"

text \<open>
  The effect run once after the first render. \<open>urlParams_get\<close> is the \<open>get\<close> method of
  \<open>new URLSearchParams(window.location.search)\<close>, which returns \<open>null\<close> (\<open>None\<close>) for a
  parameter the URL does not have. The body of the \<open>try\<close> block is a computation that
  may throw; the \<open>catch\<close> block logs the exception and sets nothing.
\<close>

definition App_useEffect ::
  "(string \<Rightarrow> string option) \<Rightarrow> (string \<Rightarrow> exception + string) \<Rightarrow>
   (string \<Rightarrow> exception + json) \<Rightarrow> App \<Rightarrow> exception + App" where
  "App_useEffect urlParams_get decodeURIComponent JSON_parse st =
     (case urlParams_get ''data'' of
        None \<Rightarrow> Inr st
      | Some dataParam \<Rightarrow>
          if dataParam = [] then Inr st
          else
            (case
               (case decodeURIComponent dataParam of
                  Inl e \<Rightarrow> Inl e
                | Inr decoded \<Rightarrow>
                    (case JSON_parse decoded of
                       Inl e \<Rightarrow> Inl e
                     | Inr v \<Rightarrow> Inr (st\<lparr>dashboardData := parsedData v\<rparr>)))
             of Inl e \<Rightarrow> Inr st
              | Inr st' \<Rightarrow> Inr st'))"

datatype view = Loading | Dashboard dashboard

definition App_render :: "App \<Rightarrow> view" where
  "App_render st = (if app_isLoading st then Loading else Dashboard (dashboardData st))"

section \<open>Properties of the decimal digits\<close>

lemma of_char_digit: "0 \<le> d \<Longrightarrow> d < 10 \<Longrightarrow> of_char (digit d) = 48 + d"
  by (simp add: digit_def)

lemma read_decimal:
  "0 \<le> n \<Longrightarrow> foldl (\<lambda>a c. 10 * a + (of_char c - 48)) 0 (decimal n) = n"
proof (induction n rule: decimal.induct)
  case (1 n)
  show ?case
  proof (cases "n < 10")
    case True
    with 1 show ?thesis
      by (simp add: decimal.simps [of n] of_char_digit)
  next
    case False
    with 1 show ?thesis
      by (simp add: decimal.simps [of n] of_char_digit)
  qed
qed

lemma decimal_inject:
  assumes "0 \<le> m" and "0 \<le> n"
  shows "decimal m = decimal n \<longleftrightarrow> m = n"
proof
  assume "decimal m = decimal n"
  then have "foldl (\<lambda>a c. 10 * a + (of_char c - 48)) (0::int) (decimal m) =
             foldl (\<lambda>a c. 10 * a + (of_char c - 48)) 0 (decimal n)"
    by simp
  with assms show "m = n"
    by (simp only: read_decimal)
qed simp

lemma minus_notin_decimal: "0 \<le> n \<Longrightarrow> CHR ''-'' \<notin> set (decimal n)"
proof (induction n rule: decimal.induct)
  case (1 n)
  have d: "digit k \<noteq> CHR ''-''" if "0 \<le> k" "k < 10" for k
  proof
    assume "digit k = CHR ''-''"
    then have "of_char (digit k) = (of_char CHR ''-'' :: int)" by simp
    with that show False by (simp add: of_char_digit)
  qed
  show ?case
  proof (cases "n < 10")
    case True
    with 1 show ?thesis
      using d [of n] by (simp add: decimal.simps [of n])
  next
    case False
    with 1 show ?thesis
      using d [of "n mod 10"] by (simp add: decimal.simps [of n])
  qed
qed

lemma decimal_not_minus: "0 \<le> n \<Longrightarrow> decimal n \<noteq> CHR ''-'' # cs"
  using minus_notin_decimal [of n] by auto

lemma show_int_inject: "show_int i = show_int j \<longleftrightarrow> i = j"
proof
  assume h: "show_int i = show_int j"
  show "i = j"
  proof (cases "i < 0"; cases "j < 0")
    assume "i < 0" "j < 0"
    with h show ?thesis by (simp add: show_int_def decimal_inject)
  next
    assume "i < 0" "\<not> j < 0"
    with h show ?thesis
      using decimal_not_minus [of j "decimal (- i)"] by (simp add: show_int_def)
  next
    assume "\<not> i < 0" "j < 0"
    with h show ?thesis
      using decimal_not_minus [of i "decimal (- j)"] by (simp add: show_int_def)
  next
    assume "\<not> i < 0" "\<not> j < 0"
    with h show ?thesis by (simp add: show_int_def decimal_inject)
  qed
qed simp

lemma sessionId_inject: "sessionId a = sessionId b \<longleftrightarrow> a = b"
  by (simp add: sessionId_def show_int_inject)

lemma digit_simps:
  "digit 0 = CHR ''0''" "digit 1 = CHR ''1''" "digit 2 = CHR ''2''" "digit 3 = CHR ''3''"
  "digit 4 = CHR ''4''" "digit 5 = CHR ''5''" "digit 6 = CHR ''6''" "digit 7 = CHR ''7''"
  "digit 8 = CHR ''8''" "digit 9 = CHR ''9''"
  by code_simp+

lemma decimal_digit: "n < 10 \<Longrightarrow> decimal n = [digit n]"
  by (simp add: decimal.simps [of n])

lemma decimal_digits: "10 \<le> n \<Longrightarrow> decimal n = decimal (n div 10) @ [digit (n mod 10)]"
  by (simp add: decimal.simps [of n])

lemmas decimal_eval = decimal_digit decimal_digits digit_simps

section \<open>Properties of the inbound handler\<close>

lemma property_object:
  "property (Some d) k = Inr (Some v) \<Longrightarrow> \<exists>kvs. d = JObject kvs \<and> map_of kvs k = Some v"
  by (cases d) auto

lemma onmessage_parse_error:
  "JSON_parse event_data = Inl e \<Longrightarrow> onmessage JSON_parse digits now date st event_data = Inl e"
  by (simp add: onmessage_def)

lemma onmessage_type_error:
  "JSON_parse event_data = Inr d \<Longrightarrow> property (Some d) ''type'' = Inl e \<Longrightarrow>
   onmessage JSON_parse digits now date st event_data = Inl e"
  by (simp add: onmessage_def)

lemma onmessage_other:
  "JSON_parse event_data = Inr d \<Longrightarrow> property (Some d) ''type'' = Inr ty \<Longrightarrow>
   ty \<noteq> Some (JString ''response'') \<Longrightarrow> ty \<noteq> Some (JString ''artifact_generated'') \<Longrightarrow>
   ty \<noteq> Some (JString ''error'') \<Longrightarrow>
   onmessage JSON_parse digits now date st event_data = Inr st"
  by (simp add: onmessage_def)

text \<open>
  C1. A frame whose parsed value has the type \<open>response\<close> appends exactly one message,
  of type \<open>assistant\<close>, whose content, sources and microsite are the envelope's
  \<open>response\<close>, \<open>sources\<close> and \<open>microsite\<close> (\<open>undefined\<close> where the envelope has
  none), and clears the loading flag. A frame of any other type appends no message with
  sources.
\<close>

theorem response_appends_assistant_message:
  "(\<forall>d. JSON_parse event_data = Inr d \<and>
        property (Some d) ''type'' = Inr (Some (JString ''response'')) \<longrightarrow>
        (\<exists>m. onmessage JSON_parse digits now date st event_data =
               Inr (st\<lparr>messages := messages st @ [m], isLoading := False\<rparr>) \<and>
             message_type m = ''assistant'' \<and>
             Inr (content m) = property (Some d) ''response'' \<and>
             Inr (sources m) = property (Some d) ''sources'' \<and>
             Inr (microsite m) = property (Some d) ''microsite'')) \<and>
   (\<forall>d st'. JSON_parse event_data = Inr d \<and>
        property (Some d) ''type'' \<noteq> Inr (Some (JString ''response'')) \<and>
        onmessage JSON_parse digits now date st event_data = Inr st' \<longrightarrow>
        (\<exists>ms. messages st' = messages st @ ms \<and> (\<forall>m \<in> set ms. sources m = None)))"
proof (intro conjI allI impI)
  fix d
  assume h: "JSON_parse event_data = Inr d \<and>
        property (Some d) ''type'' = Inr (Some (JString ''response''))"
  then obtain kvs where d: "d = JObject kvs"
    using property_object by blast
  show "\<exists>m. onmessage JSON_parse digits now date st event_data =
               Inr (st\<lparr>messages := messages st @ [m], isLoading := False\<rparr>) \<and>
             message_type m = ''assistant'' \<and>
             Inr (content m) = property (Some d) ''response'' \<and>
             Inr (sources m) = property (Some d) ''sources'' \<and>
             Inr (microsite m) = property (Some d) ''microsite''"
    using h unfolding d
    by (intro exI [of _ "\<lparr>message_id = ''msg_'' @ show_int now @ ''_resp'',
          message_type = ''assistant'', content = map_of kvs ''response'', timestamp = date,
          sources = map_of kvs ''sources'', microsite = map_of kvs ''microsite'',
          artifact = None\<rparr>"]) (simp add: onmessage_def)
next
  fix d st'
  assume h: "JSON_parse event_data = Inr d \<and>
        property (Some d) ''type'' \<noteq> Inr (Some (JString ''response'')) \<and>
        onmessage JSON_parse digits now date st event_data = Inr st'"
  then show "\<exists>ms. messages st' = messages st @ ms \<and> (\<forall>m \<in> set ms. sources m = None)"
    by (auto simp: onmessage_def Let_def split: sum.splits if_splits)
qed

theorem response_appends_assistant_message_witness:
  "(\<exists>m. onmessage
       (\<lambda>s. if s = ''{\"type\":\"response\",\"response\":\"94.2%\",\"sources\":[{\"file\":\"report.pdf\",\"project\":\"6\",\"score\":0.82}]}''
            then Inr (JObject [(''type'', JString ''response''), (''response'', JString ''94.2%''),
                   (''sources'', JArray [JObject [(''file'', JString ''report.pdf''),
                      (''project'', JString ''6''), (''score'', JNumber (to_double (82 / 100)))]])])
            else if s = ''{\"type\":\"error\",\"error\":\"Pipeline failure\"}''
            then Inr (JObject [(''type'', JString ''error''), (''error'', JString ''Pipeline failure'')])
            else Inl SyntaxError)
       (\<lambda>r. []) 1700000000000 1700000000001 (initial\<lparr>isLoading := True\<rparr>)
       ''{\"type\":\"response\",\"response\":\"94.2%\",\"sources\":[{\"file\":\"report.pdf\",\"project\":\"6\",\"score\":0.82}]}'' =
       Inr (initial\<lparr>messages := [m], isLoading := False\<rparr>) \<and>
     message_type m = ''assistant'' \<and>
     content m = Some (JString ''94.2%'') \<and>
     sources m = Some (JArray [JObject [(''file'', JString ''report.pdf''),
                      (''project'', JString ''6''), (''score'', JNumber (to_double (82 / 100)))]]) \<and>
     microsite m = None) \<and>
   (\<exists>st' ms. onmessage
       (\<lambda>s. if s = ''{\"type\":\"response\",\"response\":\"94.2%\",\"sources\":[{\"file\":\"report.pdf\",\"project\":\"6\",\"score\":0.82}]}''
            then Inr (JObject [(''type'', JString ''response''), (''response'', JString ''94.2%''),
                   (''sources'', JArray [JObject [(''file'', JString ''report.pdf''),
                      (''project'', JString ''6''), (''score'', JNumber (to_double (82 / 100)))]])])
            else if s = ''{\"type\":\"error\",\"error\":\"Pipeline failure\"}''
            then Inr (JObject [(''type'', JString ''error''), (''error'', JString ''Pipeline failure'')])
            else Inl SyntaxError)
       (\<lambda>r. []) 1700000000000 1700000000001 (initial\<lparr>isLoading := True\<rparr>)
       ''{\"type\":\"error\",\"error\":\"Pipeline failure\"}'' = Inr st' \<and>
     messages st' = ms \<and> length ms = 1 \<and> list_all (\<lambda>m. sources m = None) ms)"
  (is "(\<exists>m. onmessage ?P ?D ?n ?t ?st ?F = _ \<and> _) \<and> (\<exists>st' ms. onmessage ?P ?D ?n ?t ?st ?G = _ \<and> _)")
proof -
  let ?E = "JObject [(''type'', JString ''response''), (''response'', JString ''94.2%''),
                   (''sources'', JArray [JObject [(''file'', JString ''report.pdf''),
                      (''project'', JString ''6''), (''score'', JNumber (to_double (82 / 100)))]])]"
  let ?H = "JObject [(''type'', JString ''error''), (''error'', JString ''Pipeline failure'')]"
  have h1: "?P ?F = Inr ?E \<and> property (Some ?E) ''type'' = Inr (Some (JString ''response''))"
    by simp
  have r: "onmessage ?P ?D ?n ?t ?st ?G =
             Inr (?st\<lparr>messages := [\<lparr>message_id = ''msg_'' @ show_int ?n @ ''_err'',
                     message_type = ''assistant'', content = Some (JString ''Pipeline failure''),
                     timestamp = ?t, sources = None, microsite = None, artifact = None\<rparr>],
                   isLoading := False\<rparr>)"
    by (simp add: onmessage_def initial_def)
  have h2: "?P ?G = Inr ?H \<and> property (Some ?H) ''type'' \<noteq> Inr (Some (JString ''response'')) \<and>
      onmessage ?P ?D ?n ?t ?st ?G =
             Inr (?st\<lparr>messages := [\<lparr>message_id = ''msg_'' @ show_int ?n @ ''_err'',
                     message_type = ''assistant'', content = Some (JString ''Pipeline failure''),
                     timestamp = ?t, sources = None, microsite = None, artifact = None\<rparr>],
                   isLoading := False\<rparr>)"
    using r by simp
  note inst1 = response_appends_assistant_message [of ?P ?F ?D ?n ?t ?st]
  note inst2 = response_appends_assistant_message [of ?P ?G ?D ?n ?t ?st]
  from inst1 [THEN conjunct1, rule_format, OF h1]
  have a: "\<exists>m. onmessage ?P ?D ?n ?t ?st ?F = Inr (initial\<lparr>messages := [m], isLoading := False\<rparr>) \<and>
     message_type m = ''assistant'' \<and>
     content m = Some (JString ''94.2%'') \<and>
     sources m = Some (JArray [JObject [(''file'', JString ''report.pdf''),
                      (''project'', JString ''6''), (''score'', JNumber (to_double (82 / 100)))]]) \<and>
     microsite m = None"
    by (simp add: initial_def)
  from inst2 [THEN conjunct2, rule_format, OF h2]
  have b: "\<exists>st' ms. onmessage ?P ?D ?n ?t ?st ?G = Inr st' \<and>
     messages st' = ms \<and> length ms = 1 \<and> list_all (\<lambda>m. sources m = None) ms"
    using r by (simp add: initial_def)
  from a b show ?thesis by blast
qed

text \<open>
  C5. A frame whose parsed value has the type \<open>artifact_generated\<close> and carries an
  artifact with a string \<open>filename\<close> appends exactly one message, of type
  \<open>artifact_generated\<close>, whose text quotes the filename and whose \<open>artifact\<close> is the
  envelope's artifact as a whole. Nothing else changes: the loading flag, the input, the
  socket and the frames sent are what they were.
\<close>

theorem artifact_appends_artifact_message:
  assumes "JSON_parse event_data = Inr d"
    and "property (Some d) ''type'' = Inr (Some (JString ''artifact_generated''))"
    and "property (Some d) ''artifact'' = Inr (Some a)"
    and "property (Some a) ''filename'' = Inr (Some (JString filename))"
  shows "\<exists>m st'. onmessage JSON_parse digits now date st event_data = Inr st' \<and>
           messages st' = messages st @ [m] \<and>
           message_type m = ''artifact_generated'' \<and>
           content m = Some (JString (''Your requested artifact, \"'' @ filename @
             ''\", is ready! Click the link below to download.'')) \<and>
           artifact m = Some a \<and>
           isLoading st' = isLoading st \<and>
           inputMessage st' = inputMessage st \<and>
           websocket st' = websocket st \<and>
           sent st' = sent st"
proof -
  obtain kvs where d: "d = JObject kvs"
    using assms(2) property_object by blast
  show ?thesis
    using assms unfolding d
    by (simp add: onmessage_def substitution_def)
qed

theorem artifact_appends_artifact_message_witness:
  "\<exists>m st'. onmessage
       (\<lambda>s. if s = ''{\"type\":\"artifact_generated\",\"artifact\":{\"id\":\"a1\",\"filename\":\"report.pdf\",\"mime_type\":\"application/pdf\",\"download_url\":\"/api/v1/artifacts/a1\"}}''
            then Inr (JObject [(''type'', JString ''artifact_generated''),
                   (''artifact'', JObject [(''id'', JString ''a1''),
                      (''filename'', JString ''report.pdf''),
                      (''mime_type'', JString ''application/pdf''),
                      (''download_url'', JString ''/api/v1/artifacts/a1'')])])
            else Inl SyntaxError)
       (\<lambda>r. []) 1700000000000 1700000000001 (initial\<lparr>isLoading := True\<rparr>)
       ''{\"type\":\"artifact_generated\",\"artifact\":{\"id\":\"a1\",\"filename\":\"report.pdf\",\"mime_type\":\"application/pdf\",\"download_url\":\"/api/v1/artifacts/a1\"}}'' =
       Inr st' \<and>
     messages st' = [m] \<and>
     message_type m = ''artifact_generated'' \<and>
     content m = Some (JString
       ''Your requested artifact, \"report.pdf\", is ready! Click the link below to download.'') \<and>
     artifact m = Some (JObject [(''id'', JString ''a1''),
                      (''filename'', JString ''report.pdf''),
                      (''mime_type'', JString ''application/pdf''),
                      (''download_url'', JString ''/api/v1/artifacts/a1'')]) \<and>
     isLoading st'"
  (is "\<exists>m st'. onmessage ?P ?D ?n ?t ?st ?F = _ \<and> _")
proof -
  let ?A = "JObject [(''id'', JString ''a1''),
                      (''filename'', JString ''report.pdf''),
                      (''mime_type'', JString ''application/pdf''),
                      (''download_url'', JString ''/api/v1/artifacts/a1'')]"
  let ?E = "JObject [(''type'', JString ''artifact_generated''), (''artifact'', ?A)]"
  have h1: "?P ?F = Inr ?E"
    by simp
  have h2: "property (Some ?E) ''type'' = Inr (Some (JString ''artifact_generated''))"
    by simp
  have h3: "property (Some ?E) ''artifact'' = Inr (Some ?A)"
    by simp
  have h4: "property (Some ?A) ''filename'' = Inr (Some (JString ''report.pdf''))"
    by simp
  from artifact_appends_artifact_message [of ?P ?F, OF h1 h2 h3 h4, of ?D ?n ?t ?st]
  obtain m st' where r: "onmessage ?P ?D ?n ?t ?st ?F = Inr st'"
    "messages st' = messages ?st @ [m]"
    "message_type m = ''artifact_generated''"
    "content m = Some (JString (''Your requested artifact, \"'' @ ''report.pdf'' @
             ''\", is ready! Click the link below to download.''))"
    "artifact m = Some ?A"
    "isLoading st' = isLoading ?st"
    by blast
  show ?thesis
    using r by (intro exI [of _ m] exI [of _ st']) (simp add: initial_def)
qed

text \<open>
  C6. A frame whose parsed value has the type \<open>error\<close> appends exactly one message,
  whose content is the envelope's \<open>error\<close> and nothing more, and clears the loading
  flag: with a socket and a text that is not blank, the next \<open>sendMessage\<close> sends.
\<close>

theorem error_appends_error_message:
  assumes "JSON_parse event_data = Inr d"
    and "property (Some d) ''type'' = Inr (Some (JString ''error''))"
  shows "\<exists>m st'. onmessage JSON_parse digits now date st event_data = Inr st' \<and>
           messages st' = messages st @ [m] \<and>
           Inr (content m) = property (Some d) ''error'' \<and>
           message_type m = ''assistant'' \<and>
           sources m = None \<and> microsite m = None \<and> artifact m = None \<and>
           \<not> isLoading st' \<and>
           (\<forall>JSON_stringify p t t' v. \<not> blank v \<and> websocket st' \<noteq> None \<longrightarrow>
              length (sent (sendMessage JSON_stringify p t t' (st'\<lparr>inputMessage := v\<rparr>)
                (st'\<lparr>inputMessage := v\<rparr>))) =
              Suc (length (sent st')))"
proof -
  obtain kvs where d: "d = JObject kvs"
    using assms(2) property_object by blast
  show ?thesis
    using assms unfolding d
    by (simp add: onmessage_def sendMessage_def Let_def)
qed

theorem error_appends_error_message_witness:
  "\<exists>m st'. onmessage
       (\<lambda>s. if s = ''{\"type\":\"error\",\"error\":\"Pipeline failure\"}''
            then Inr (JObject [(''type'', JString ''error''), (''error'', JString ''Pipeline failure'')])
            else Inl SyntaxError)
       (\<lambda>r. []) 1700000000000 1700000000001
       (initial\<lparr>isLoading := True, websocket := Some ''ws://localhost:8000/ws/session_1699999999000''\<rparr>)
       ''{\"type\":\"error\",\"error\":\"Pipeline failure\"}'' = Inr st' \<and>
     messages st' = [m] \<and>
     content m = Some (JString ''Pipeline failure'') \<and>
     message_type m = ''assistant'' \<and>
     \<not> isLoading st' \<and>
     length (sent (sendMessage (\<lambda>v. []) \<lparr>selectedProject = ''6'', user = None\<rparr>
        1700000000002 1700000000003 (st'\<lparr>inputMessage := ''next''\<rparr>)
        (st'\<lparr>inputMessage := ''next''\<rparr>))) = Suc (length (sent st'))"
  (is "\<exists>m st'. onmessage ?P ?D ?n ?t ?st ?F = _ \<and> _")
proof -
  let ?E = "JObject [(''type'', JString ''error''), (''error'', JString ''Pipeline failure'')]"
  have h1: "?P ?F = Inr ?E"
    by simp
  have h2: "property (Some ?E) ''type'' = Inr (Some (JString ''error''))"
    by simp
  have nb: "\<not> blank ''next''"
    by code_simp
  from error_appends_error_message [of ?P ?F, OF h1 h2, of ?D ?n ?t ?st]
  obtain m st' where r: "onmessage ?P ?D ?n ?t ?st ?F = Inr st'"
    "messages st' = messages ?st @ [m]"
    "Inr (content m) = property (Some ?E) ''error''"
    "message_type m = ''assistant''" "\<not> isLoading st'"
    and s: "\<forall>JSON_stringify p t t' v. \<not> blank v \<and> websocket st' \<noteq> None \<longrightarrow>
              length (sent (sendMessage JSON_stringify p t t' (st'\<lparr>inputMessage := v\<rparr>)
                (st'\<lparr>inputMessage := v\<rparr>))) =
              Suc (length (sent st'))"
    by blast
  have w: "websocket st' \<noteq> None"
    using r(1) by (auto simp: onmessage_def)
  have "length (sent (sendMessage (\<lambda>v. []) \<lparr>selectedProject = ''6'', user = None\<rparr>
        1700000000002 1700000000003 (st'\<lparr>inputMessage := ''next''\<rparr>)
        (st'\<lparr>inputMessage := ''next''\<rparr>))) = Suc (length (sent st'))"
    using s nb w by blast
  with r show ?thesis
    by (intro exI [of _ m] exI [of _ st']) (simp add: initial_def)
qed

text \<open>
  C9. A frame that does not parse, or whose parsed value has no \<open>type\<close> among
  \<open>response\<close>, \<open>artifact_generated\<close> and \<open>error\<close>, changes nothing: the state after the
  handler is the state before it, so no message is appended and the loading flag keeps
  its value.
\<close>

theorem other_frames_change_nothing:
  assumes "envelope_type rt event_data \<noteq> Some (JString ''response'')"
    and "envelope_type rt event_data \<noteq> Some (JString ''artifact_generated'')"
    and "envelope_type rt event_data \<noteq> Some (JString ''error'')"
  shows "receive rt now date st event_data = st"
proof (cases "rt_parse rt event_data")
  case (Inl e)
  then show ?thesis
    by (simp add: receive_def onmessage_parse_error)
next
  case (Inr d)
  show ?thesis
  proof (cases "property (Some d) ''type''")
    case (Inl e)
    with Inr show ?thesis
      by (simp add: receive_def onmessage_type_error)
  next
    case ty: (Inr ty)
    with Inr assms have "ty \<noteq> Some (JString ''response'')"
      "ty \<noteq> Some (JString ''artifact_generated'')" "ty \<noteq> Some (JString ''error'')"
      by (simp_all add: envelope_type_def)
    with Inr ty show ?thesis
      by (simp add: receive_def onmessage_other)
  qed
qed

theorem other_frames_change_nothing_witness:
  "envelope_type
     \<lparr>rt_parse = (\<lambda>s. if s = ''{\"type\":\"ping\"}''
                       then Inr (JObject [(''type'', JString ''ping'')]) else Inl SyntaxError),
      rt_stringify = (\<lambda>v. []), rt_digits = (\<lambda>r. [])\<rparr>
     ''{\"type\":\"ping\"}'' = Some (JString ''ping'') \<and>
   receive
     \<lparr>rt_parse = (\<lambda>s. if s = ''{\"type\":\"ping\"}''
                       then Inr (JObject [(''type'', JString ''ping'')]) else Inl SyntaxError),
      rt_stringify = (\<lambda>v. []), rt_digits = (\<lambda>r. [])\<rparr>
     1700000000000 1700000000000 (initial\<lparr>isLoading := True\<rparr>) ''{\"type\":\"ping\"}'' =
   initial\<lparr>isLoading := True\<rparr>"
  using other_frames_change_nothing
    [of "\<lparr>rt_parse = (\<lambda>s. if s = ''{\"type\":\"ping\"}''
                       then Inr (JObject [(''type'', JString ''ping'')]) else Inl SyntaxError),
          rt_stringify = (\<lambda>v. []), rt_digits = (\<lambda>r. [])\<rparr>"
        "''{\"type\":\"ping\"}''" 1700000000000 1700000000000 "initial\<lparr>isLoading := True\<rparr>"]
  by (simp add: envelope_type_def)

section \<open>Properties of a session\<close>

lemma onmessage_frame:
  assumes "onmessage JSON_parse digits now date st event_data = Inr st'"
  shows "sent st' = sent st" and "websocket st' = websocket st"
    and "inputMessage st' = inputMessage st" and "isLoading st' \<longrightarrow> isLoading st"
  using assms
  by (auto simp: onmessage_def Let_def split: sum.splits if_splits)

lemma onmessage_isLoading:
  assumes "onmessage JSON_parse digits now date st event_data = Inr st'"
    and "JSON_parse event_data = Inr d"
    and "property (Some d) ''type'' \<noteq> Inr (Some (JString ''response''))"
    and "property (Some d) ''type'' \<noteq> Inr (Some (JString ''error''))"
  shows "isLoading st' = isLoading st"
  using assms
  by (auto simp: onmessage_def Let_def split: sum.splits if_splits)

lemma receive_sent: "sent (receive rt now date st event_data) = sent st"
  by (cases "onmessage (rt_parse rt) (rt_digits rt) now date st event_data")
     (simp_all add: receive_def onmessage_frame)

lemma receive_never_sets_isLoading:
  "isLoading (receive rt now date st event_data) \<Longrightarrow> isLoading st"
  by (cases "onmessage (rt_parse rt) (rt_digits rt) now date st event_data")
     (simp_all add: receive_def onmessage_frame)

lemma receive_isLoading:
  assumes "\<not> answer rt event_data"
  shows "isLoading (receive rt now date st event_data) = isLoading st"
proof (cases "onmessage (rt_parse rt) (rt_digits rt) now date st event_data")
  case (Inl e)
  then show ?thesis
    by (simp add: receive_def)
next
  case (Inr st')
  then obtain d where d: "rt_parse rt event_data = Inr d"
    by (cases "rt_parse rt event_data") (simp_all add: onmessage_def)
  then obtain ty where ty: "property (Some d) ''type'' = Inr ty"
    using Inr by (cases "property (Some d) ''type''") (simp_all add: onmessage_def)
  from assms d ty have "ty \<noteq> Some (JString ''response'')" "ty \<noteq> Some (JString ''error'')"
    by (simp_all add: answer_def envelope_type_def)
  with ty have "property (Some d) ''type'' \<noteq> Inr (Some (JString ''response''))"
    "property (Some d) ''type'' \<noteq> Inr (Some (JString ''error''))"
    by simp_all
  from onmessage_isLoading [OF Inr d this] Inr show ?thesis
    by (simp add: receive_def)
qed

lemma sendMessage_loading:
  "isLoading c \<Longrightarrow> sendMessage JSON_stringify p now date c st = st"
  by (simp add: sendMessage_def)

lemma sendMessage_cases:
  "sendMessage JSON_stringify p now date c st = st \<or>
   (\<not> isLoading c \<and> isLoading (sendMessage JSON_stringify p now date c st) \<and>
    sent (sendMessage JSON_stringify p now date c st) = sent st @
      [JSON_stringify (JObject
         [(''message'', JString (inputMessage c)),
          (''project_context'', JObject
             [(''tenant_id'', JString (or_default (Option.bind (user p) tenant_id) ''demo'')),
              (''project_ids'',
                 JArray (if selectedProject p = [] then [] else [JString (selectedProject p)])),
              (''selected_project'', JString (selectedProject p))]),
          (''type'', JString ''chat'')])])"
  by (simp add: sendMessage_def Let_def)

lemma in_flight_step:
  assumes "ev \<noteq> Error"
    and "renders_between_sends fresh (ev # evs)"
    and "k \<le> 1"
    and "\<not> isLoading (current s) \<longrightarrow> k = 0"
    and "fresh \<longrightarrow> isLoading (current s) \<longrightarrow> isLoading (rendered s)"
  shows "\<exists>fresh'. renders_between_sends fresh' evs \<and>
           in_flight rt s k ev \<le> 1 \<and>
           (\<not> isLoading (current (step rt s ev)) \<longrightarrow> in_flight rt s k ev = 0) \<and>
           (fresh' \<longrightarrow> isLoading (current (step rt s ev)) \<longrightarrow>
              isLoading (rendered (step rt s ev)))"
proof (cases ev)
  case (Open p ws now date)
  with assms show ?thesis
    by (intro exI [of _ fresh]) (simp add: onopen_def Let_def)
next
  case (Change v)
  with assms show ?thesis
    by (intro exI [of _ fresh]) simp
next
  case (Send p now date)
  with assms have fresh: fresh and rest: "renders_between_sends False evs"
    by simp_all
  from sendMessage_cases [of "rt_stringify rt" p now date "rendered s" "current s"]
  show ?thesis
  proof
    assume "sendMessage (rt_stringify rt) p now date (rendered s) (current s) = current s"
    with Send assms rest show ?thesis
      by (intro exI [of _ False]) simp
  next
    assume a: "\<not> isLoading (rendered s) \<and>
      isLoading (sendMessage (rt_stringify rt) p now date (rendered s) (current s)) \<and>
      sent (sendMessage (rt_stringify rt) p now date (rendered s) (current s)) =
      sent (current s) @
      [rt_stringify rt (JObject
         [(''message'', JString (inputMessage (rendered s))),
          (''project_context'', JObject
             [(''tenant_id'', JString (or_default (Option.bind (user p) tenant_id) ''demo'')),
              (''project_ids'',
                 JArray (if selectedProject p = [] then [] else [JString (selectedProject p)])),
              (''selected_project'', JString (selectedProject p))]),
          (''type'', JString ''chat'')])]"
    with fresh assms(5) have "\<not> isLoading (current s)"
      by blast
    with assms(4) have "k = 0"
      by simp
    with Send a rest show ?thesis
      by (intro exI [of _ False]) simp
  qed
next
  case (Receive event_data now date)
  show ?thesis
  proof (cases "answer rt event_data")
    case True
    with Receive assms receive_never_sets_isLoading [of rt now date "current s" event_data]
    show ?thesis
      by (intro exI [of _ fresh]) auto
  next
    case False
    with Receive assms receive_isLoading [OF False, of now date "current s"] show ?thesis
      by (intro exI [of _ fresh]) simp
  qed
next
  case Error
  with assms show ?thesis
    by simp
next
  case Render
  with assms show ?thesis
    by (intro exI [of _ True]) simp
qed

lemma run_in_flight:
  assumes "Error \<notin> set evs"
    and "renders_between_sends fresh evs"
    and "k \<le> 1"
    and "\<not> isLoading (current s) \<longrightarrow> k = 0"
    and "fresh \<longrightarrow> isLoading (current s) \<longrightarrow> isLoading (rendered s)"
  shows "snd (run rt (s, k) evs) \<le> 1 \<and>
         (\<not> isLoading (current (fst (run rt (s, k) evs))) \<longrightarrow> snd (run rt (s, k) evs) = 0)"
  using assms
proof (induction evs arbitrary: s k fresh)
  case Nil
  then show ?case
    by simp
next
  case (Cons ev evs)
  from Cons.prems have "ev \<noteq> Error" "Error \<notin> set evs"
    by auto
  from in_flight_step [OF this(1) Cons.prems(2-5), of rt]
  obtain fresh' where "renders_between_sends fresh' evs"
    "in_flight rt s k ev \<le> 1"
    "\<not> isLoading (current (step rt s ev)) \<longrightarrow> in_flight rt s k ev = 0"
    "fresh' \<longrightarrow> isLoading (current (step rt s ev)) \<longrightarrow> isLoading (rendered (step rt s ev))"
    by blast
  from Cons.IH [OF \<open>Error \<notin> set evs\<close> this] show ?case
    by simp
qed

lemma step_sent:
  "sent (current (step rt s ev)) = sent (current s) \<or>
   (\<exists>message tenant selected.
      sent (current (step rt s ev)) = sent (current s) @
        [rt_stringify rt (JObject
           [(''message'', JString message),
            (''project_context'', JObject
               [(''tenant_id'', JString tenant),
                (''project_ids'', JArray (if selected = [] then [] else [JString selected])),
                (''selected_project'', JString selected)]),
            (''type'', JString ''chat'')])])"
proof (cases ev)
  case (Send p now date)
  from sendMessage_cases [of "rt_stringify rt" p now date "rendered s" "current s"]
  show ?thesis
  proof
    assume "sendMessage (rt_stringify rt) p now date (rendered s) (current s) = current s"
    with Send show ?thesis
      by simp
  next
    assume "\<not> isLoading (rendered s) \<and>
      isLoading (sendMessage (rt_stringify rt) p now date (rendered s) (current s)) \<and>
      sent (sendMessage (rt_stringify rt) p now date (rendered s) (current s)) =
      sent (current s) @
      [rt_stringify rt (JObject
         [(''message'', JString (inputMessage (rendered s))),
          (''project_context'', JObject
             [(''tenant_id'', JString (or_default (Option.bind (user p) tenant_id) ''demo'')),
              (''project_ids'',
                 JArray (if selectedProject p = [] then [] else [JString (selectedProject p)])),
              (''selected_project'', JString (selectedProject p))]),
          (''type'', JString ''chat'')])]"
    with Send show ?thesis
      by auto
  qed
qed (simp_all add: onopen_def Let_def receive_sent onerror_def)

lemma run_sent:
  assumes "list_all P (sent (current s))"
    and "\<And>s ev. list_all P (sent (current s)) \<Longrightarrow> list_all P (sent (current (step rt s ev)))"
  shows "list_all P (sent (current (fst (run rt (s, k) evs))))"
  using assms(1)
proof (induction evs arbitrary: s k)
  case Nil
  then show ?case
    by simp
next
  case (Cons ev evs)
  from Cons.IH [OF assms(2) [OF Cons.prems]] show ?case
    by simp
qed

lemma not_blank_question: "\<not> blank ''What is the efficiency KPI?''"
  by code_simp

lemma not_blank_thanks: "\<not> blank ''Thanks''"
  by code_simp

text \<open>
  C3. \<open>sendMessage\<close> either leaves the state as it is or passes exactly one frame to the
  socket: the serialisation of \<open>{message, project_context: {tenant_id, project_ids,
  selected_project}, type: "chat"}\<close>, where \<open>project_ids\<close> holds the selected project
  alone when one is selected (the string is not empty) and is empty otherwise. Every
  frame the component has sent, after any sequence of events, has this shape.
\<close>

theorem chat_frames_have_the_chat_shape:
  "(sendMessage JSON_stringify p now date c st = st \<or>
    sent (sendMessage JSON_stringify p now date c st) = sent st @
      [JSON_stringify (JObject
         [(''message'', JString (inputMessage c)),
          (''project_context'', JObject
             [(''tenant_id'', JString (or_default (Option.bind (user p) tenant_id) ''demo'')),
              (''project_ids'',
                 JArray (if selectedProject p = [] then [] else [JString (selectedProject p)])),
              (''selected_project'', JString (selectedProject p))]),
          (''type'', JString ''chat'')])]) \<and>
   (\<forall>f \<in> set (sent (current (fst (run rt (mounted, 0) evs)))).
      \<exists>message tenant selected.
        f = rt_stringify rt (JObject
           [(''message'', JString message),
            (''project_context'', JObject
               [(''tenant_id'', JString tenant),
                (''project_ids'', JArray (if selected = [] then [] else [JString selected])),
                (''selected_project'', JString selected)]),
            (''type'', JString ''chat'')]))"
proof
  show "sendMessage JSON_stringify p now date c st = st \<or>
    sent (sendMessage JSON_stringify p now date c st) = sent st @
      [JSON_stringify (JObject
         [(''message'', JString (inputMessage c)),
          (''project_context'', JObject
             [(''tenant_id'', JString (or_default (Option.bind (user p) tenant_id) ''demo'')),
              (''project_ids'',
                 JArray (if selectedProject p = [] then [] else [JString (selectedProject p)])),
              (''selected_project'', JString (selectedProject p))]),
          (''type'', JString ''chat'')])]"
    using sendMessage_cases [of JSON_stringify p now date c st] by blast
next
  define P where "P = (\<lambda>f. \<exists>message tenant selected.
        f = rt_stringify rt (JObject
           [(''message'', JString message),
            (''project_context'', JObject
               [(''tenant_id'', JString tenant),
                (''project_ids'', JArray (if selected = [] then [] else [JString selected])),
                (''selected_project'', JString selected)]),
            (''type'', JString ''chat'')]))"
  have step: "list_all P (sent (current (step rt s ev)))" if "list_all P (sent (current s))"
    for s ev
  proof -
    from step_sent [of rt s ev]
    have "sent (current (step rt s ev)) = sent (current s) \<or>
      (\<exists>f. P f \<and> sent (current (step rt s ev)) = sent (current s) @ [f])"
      unfolding P_def by blast
    with that show ?thesis
      by auto
  qed
  have "list_all P (sent (current mounted))"
    by (simp add: mounted_def initial_def)
  from run_sent [of P, OF this step, of 0 evs]
  have "\<forall>f \<in> set (sent (current (fst (run rt (mounted, 0) evs)))). P f"
    by (simp add: list_all_iff)
  then show "\<forall>f \<in> set (sent (current (fst (run rt (mounted, 0) evs)))).
      \<exists>message tenant selected.
        f = rt_stringify rt (JObject
           [(''message'', JString message),
            (''project_context'', JObject
               [(''tenant_id'', JString tenant),
                (''project_ids'', JArray (if selected = [] then [] else [JString selected])),
                (''selected_project'', JString selected)]),
            (''type'', JString ''chat'')])"
    unfolding P_def .
qed

theorem chat_frames_have_the_chat_shape_witness:
  "sent (current (fst (run
      \<lparr>rt_parse = (\<lambda>s. Inl SyntaxError),
       rt_stringify = (\<lambda>v. if v = JObject
           [(''message'', JString ''What is the efficiency KPI?''),
            (''project_context'', JObject
               [(''tenant_id'', JString ''demo''),
                (''project_ids'', JArray [JString ''6'']),
                (''selected_project'', JString ''6'')]),
            (''type'', JString ''chat'')]
          then ''{\"message\":\"What is the efficiency KPI?\",\"project_context\":{\"tenant_id\":\"demo\",\"project_ids\":[\"6\"],\"selected_project\":\"6\"},\"type\":\"chat\"}''
          else []),
       rt_digits = (\<lambda>r. [])\<rparr>
      (mounted, 0)
      [Open \<lparr>selectedProject = ''6'', user = None\<rparr> ''ws://localhost:8000/ws/session_1700000000000''
         1700000000005 1700000000006,
       Render,
       Change ''What is the efficiency KPI?'',
       Render,
       Send \<lparr>selectedProject = ''6'', user = None\<rparr> 1700000009000 1700000009001]))) =
     [''{\"message\":\"What is the efficiency KPI?\",\"project_context\":{\"tenant_id\":\"demo\",\"project_ids\":[\"6\"],\"selected_project\":\"6\"},\"type\":\"chat\"}''] \<and>
   (\<exists>message tenant selected.
      ''{\"message\":\"What is the efficiency KPI?\",\"project_context\":{\"tenant_id\":\"demo\",\"project_ids\":[\"6\"],\"selected_project\":\"6\"},\"type\":\"chat\"}'' =
      (\<lambda>v. if v = JObject
           [(''message'', JString ''What is the efficiency KPI?''),
            (''project_context'', JObject
               [(''tenant_id'', JString ''demo''),
                (''project_ids'', JArray [JString ''6'']),
                (''selected_project'', JString ''6'')]),
            (''type'', JString ''chat'')]
          then ''{\"message\":\"What is the efficiency KPI?\",\"project_context\":{\"tenant_id\":\"demo\",\"project_ids\":[\"6\"],\"selected_project\":\"6\"},\"type\":\"chat\"}''
          else [])
        (JObject
           [(''message'', JString message),
            (''project_context'', JObject
               [(''tenant_id'', JString tenant),
                (''project_ids'', JArray (if selected = [] then [] else [JString selected])),
                (''selected_project'', JString selected)]),
            (''type'', JString ''chat'')]))"
  (is "sent (current (fst (run ?rt _ ?evs))) = [?f] \<and> _")
proof -
  have s: "sent (current (fst (run ?rt (mounted, 0) ?evs))) = [?f]"
    by (simp add: mounted_def initial_def onopen_def sendMessage_def not_blank_question
        or_default_def)
  from chat_frames_have_the_chat_shape [of "\<lambda>v. []" "\<lparr>selectedProject = ''6'', user = None\<rparr>"
      0 0 initial initial ?rt ?evs, THEN conjunct2]
  have "\<forall>f \<in> set [?f]. \<exists>message tenant selected.
        f = rt_stringify ?rt (JObject
           [(''message'', JString message),
            (''project_context'', JObject
               [(''tenant_id'', JString tenant),
                (''project_ids'', JArray (if selected = [] then [] else [JString selected])),
                (''selected_project'', JString selected)]),
            (''type'', JString ''chat'')])"
    unfolding s .
  then show ?thesis
    using s by simp
qed

text \<open>
  C4 (as stated). At most one chat message would ever be in flight. The socket's error
  event clears the loading flag while the message sent before it is unanswered, so the
  next render lets \<open>sendMessage\<close> send a second one; and two calls of \<open>sendMessage\<close>
  with no render between them both read the flag of the same render, and both send.
\<close>

theorem two_chat_messages_in_flight:
  "snd (run
      \<lparr>rt_parse = (\<lambda>s. Inl SyntaxError), rt_stringify = (\<lambda>v. []), rt_digits = (\<lambda>r. [])\<rparr>
      (mounted, 0)
      [Open \<lparr>selectedProject = ''6'', user = None\<rparr> ''ws://localhost:8000/ws/session_1700000000000''
         1700000000005 1700000000006,
       Render,
       Change ''What is the efficiency KPI?'',
       Render,
       Send \<lparr>selectedProject = ''6'', user = None\<rparr> 1700000009000 1700000009001,
       Render,
       Error,
       Render,
       Change ''Thanks'',
       Render,
       Send \<lparr>selectedProject = ''6'', user = None\<rparr> 1700000015000 1700000015001]) = 2 \<and>
   snd (run
      \<lparr>rt_parse = (\<lambda>s. Inl SyntaxError), rt_stringify = (\<lambda>v. []), rt_digits = (\<lambda>r. [])\<rparr>
      (mounted, 0)
      [Open \<lparr>selectedProject = ''6'', user = None\<rparr> ''ws://localhost:8000/ws/session_1700000000000''
         1700000000005 1700000000006,
       Render,
       Change ''What is the efficiency KPI?'',
       Render,
       Send \<lparr>selectedProject = ''6'', user = None\<rparr> 1700000009000 1700000009001,
       Send \<lparr>selectedProject = ''6'', user = None\<rparr> 1700000009002 1700000009003]) = 2"
  by (simp add: mounted_def initial_def onopen_def onerror_def sendMessage_def
      not_blank_question not_blank_thanks)

text \<open>
  C4 (amended). A \<open>sendMessage\<close> whose render saw the loading flag set does nothing. In
  a sequence of events in which the socket reports no error and the component is
  rendered between any two calls of \<open>sendMessage\<close>, at most one chat message is in
  flight, and while one is, the flag is set: a chat message is sent only after the one
  before it has been answered by a response or an error envelope, so the answers arrive
  in the order of the requests.
\<close>

theorem one_chat_message_in_flight:
  "(isLoading c \<longrightarrow> sendMessage JSON_stringify p now date c st = st) \<and>
   (Error \<notin> set evs \<and> renders_between_sends True evs \<longrightarrow>
      snd (run rt (mounted, 0) evs) \<le> 1 \<and>
      (snd (run rt (mounted, 0) evs) = 1 \<longrightarrow>
         isLoading (current (fst (run rt (mounted, 0) evs)))))"
proof (intro conjI impI)
  assume "isLoading c"
  then show "sendMessage JSON_stringify p now date c st = st"
    by (rule sendMessage_loading)
next
  assume "Error \<notin> set evs \<and> renders_between_sends True evs"
  then have e: "Error \<notin> set evs" and r: "renders_between_sends True evs"
    by simp_all
  have i: "\<not> isLoading (current mounted) \<longrightarrow> (0::nat) = 0"
    "True \<longrightarrow> isLoading (current mounted) \<longrightarrow> isLoading (rendered mounted)"
    by (simp_all add: mounted_def)
  from run_in_flight [OF e r _ i, of rt]
  show "snd (run rt (mounted, 0) evs) \<le> 1"
    by simp
  assume "snd (run rt (mounted, 0) evs) = 1"
  with run_in_flight [OF e r _ i, of rt]
  show "isLoading (current (fst (run rt (mounted, 0) evs)))"
    by auto
qed

theorem one_chat_message_in_flight_witness:
  "isLoading (initial\<lparr>isLoading := True, inputMessage := ''Thanks''\<rparr>) \<and>
   sendMessage (\<lambda>v. []) \<lparr>selectedProject = ''6'', user = None\<rparr> 1700000000000 1700000000001
     (initial\<lparr>isLoading := True, inputMessage := ''Thanks''\<rparr>)
     (initial\<lparr>isLoading := True, inputMessage := ''Thanks''\<rparr>) =
     initial\<lparr>isLoading := True, inputMessage := ''Thanks''\<rparr> \<and>
   Error \<notin> set
      [Open \<lparr>selectedProject = ''6'', user = None\<rparr> ''ws://localhost:8000/ws/session_1700000000000''
         1700000000005 1700000000006,
       Render,
       Change ''What is the efficiency KPI?'',
       Render,
       Send \<lparr>selectedProject = ''6'', user = None\<rparr> 1700000009000 1700000009001,
       Render,
       Change ''Thanks'',
       Render,
       Send \<lparr>selectedProject = ''6'', user = None\<rparr> 1700000009500 1700000009501,
       Receive ''{\"type\":\"response\",\"response\":\"94.2%\"}'' 1700000012000 1700000012001,
       Render,
       Send \<lparr>selectedProject = ''6'', user = None\<rparr> 1700000015000 1700000015001] \<and>
   renders_between_sends True
      [Open \<lparr>selectedProject = ''6'', user = None\<rparr> ''ws://localhost:8000/ws/session_1700000000000''
         1700000000005 1700000000006,
       Render,
       Change ''What is the efficiency KPI?'',
       Render,
       Send \<lparr>selectedProject = ''6'', user = None\<rparr> 1700000009000 1700000009001,
       Render,
       Change ''Thanks'',
       Render,
       Send \<lparr>selectedProject = ''6'', user = None\<rparr> 1700000009500 1700000009501,
       Receive ''{\"type\":\"response\",\"response\":\"94.2%\"}'' 1700000012000 1700000012001,
       Render,
       Send \<lparr>selectedProject = ''6'', user = None\<rparr> 1700000015000 1700000015001] \<and>
   snd (run
      \<lparr>rt_parse = (\<lambda>s. if s = ''{\"type\":\"response\",\"response\":\"94.2%\"}''
          then Inr (JObject [(''type'', JString ''response''), (''response'', JString ''94.2%'')])
          else Inl SyntaxError),
       rt_stringify = (\<lambda>v. []), rt_digits = (\<lambda>r. [])\<rparr>
      (mounted, 0)
      [Open \<lparr>selectedProject = ''6'', user = None\<rparr> ''ws://localhost:8000/ws/session_1700000000000''
         1700000000005 1700000000006,
       Render,
       Change ''What is the efficiency KPI?'',
       Render,
       Send \<lparr>selectedProject = ''6'', user = None\<rparr> 1700000009000 1700000009001,
       Render,
       Change ''Thanks'',
       Render,
       Send \<lparr>selectedProject = ''6'', user = None\<rparr> 1700000009500 1700000009501,
       Receive ''{\"type\":\"response\",\"response\":\"94.2%\"}'' 1700000012000 1700000012001,
       Render,
       Send \<lparr>selectedProject = ''6'', user = None\<rparr> 1700000015000 1700000015001]) = 1 \<and>
   isLoading (current (fst (run
      \<lparr>rt_parse = (\<lambda>s. if s = ''{\"type\":\"response\",\"response\":\"94.2%\"}''
          then Inr (JObject [(''type'', JString ''response''), (''response'', JString ''94.2%'')])
          else Inl SyntaxError),
       rt_stringify = (\<lambda>v. []), rt_digits = (\<lambda>r. [])\<rparr>
      (mounted, 0)
      [Open \<lparr>selectedProject = ''6'', user = None\<rparr> ''ws://localhost:8000/ws/session_1700000000000''
         1700000000005 1700000000006,
       Render,
       Change ''What is the efficiency KPI?'',
       Render,
       Send \<lparr>selectedProject = ''6'', user = None\<rparr> 1700000009000 1700000009001,
       Render,
       Change ''Thanks'',
       Render,
       Send \<lparr>selectedProject = ''6'', user = None\<rparr> 1700000009500 1700000009501,
       Receive ''{\"type\":\"response\",\"response\":\"94.2%\"}'' 1700000012000 1700000012001,
       Render,
       Send \<lparr>selectedProject = ''6'', user = None\<rparr> 1700000015000 1700000015001])))"
  (is "isLoading ?st \<and> sendMessage ?js ?p ?n ?t ?st ?st = ?st \<and> Error \<notin> set ?evs \<and>
       renders_between_sends True ?evs \<and> snd (run ?rt _ ?evs) = 1 \<and> _")
proof -
  have l: "isLoading ?st"
    by simp
  have e: "Error \<notin> set ?evs \<and> renders_between_sends True ?evs"
    by simp
  have k: "snd (run ?rt (mounted, 0) ?evs) = 1"
    by (simp add: mounted_def initial_def onopen_def sendMessage_def not_blank_question
        not_blank_thanks receive_def onmessage_def answer_def envelope_type_def)
  note inst = one_chat_message_in_flight [of ?st ?js ?p ?n ?t ?st ?evs ?rt]
  from inst [THEN conjunct1, rule_format, OF l]
  have a: "sendMessage ?js ?p ?n ?t ?st ?st = ?st" .
  from inst [THEN conjunct2, rule_format, OF e, THEN conjunct2, rule_format, OF k]
  have b: "isLoading (current (fst (run ?rt (mounted, 0) ?evs)))" .
  from l a e k b show ?thesis
    by blast
qed

section \<open>Session identifiers\<close>

text \<open>
  C7 (as stated). Every connection the client opens would use a session identifier
  distinct from that of every connection opened before. Two connections opened at the
  same reading of the millisecond clock have the same identifier.
\<close>

theorem same_millisecond_same_session_id:
  "map sessionId [1700000000000, 1700000000000] =
     [''session_1700000000000'', ''session_1700000000000''] \<and>
   \<not> distinct (map sessionId [1700000000000, 1700000000000])"
  by (simp add: sessionId_def show_int_def decimal_eval)

text \<open>
  C7 (amended). The session identifier is \<open>session_\<close> followed by the reading of the
  millisecond clock at the time the effect runs, and nothing else: the connections opened
  at the clock readings \<open>ts\<close> have pairwise distinct identifiers, and pairwise distinct
  URLs, exactly when the readings are pairwise distinct.
\<close>

theorem session_ids_follow_the_clock:
  "(distinct (map sessionId ts) \<longleftrightarrow> distinct ts) \<and>
   (distinct (map (connect VITE_WS_URL) ts) \<longleftrightarrow> distinct ts)"
  by (simp add: distinct_map inj_on_def sessionId_inject connect_def)

section \<open>Properties of the source lines\<close>

lemma toFixed0_small:
  "\<bar>p\<bar> < 10 ^ 21 \<Longrightarrow>
   toFixed0 digits (Finite p) = (if p < 0 then ''-'' else []) @ decimal \<lfloor>\<bar>p\<bar> + 1 / 2\<rfloor>"
  by (simp add: toFixed0_def Let_def)

lemma nearest_integer:
  fixes x :: rat
  shows "- (1 / 2) \<le> x - of_int \<lfloor>x + 1 / 2\<rfloor>"
    and "x - of_int \<lfloor>x + 1 / 2\<rfloor> < 1 / 2"
proof -
  define f :: rat where "f = of_int \<lfloor>x + 1 / 2\<rfloor>"
  have lo: "f \<le> x + 1 / 2"
    unfolding f_def by (rule of_int_floor_le)
  have hi: "x + 1 / 2 < f + 1"
    unfolding f_def by linarith
  show "- (1 / 2) \<le> x - of_int \<lfloor>x + 1 / 2\<rfloor>"
    unfolding f_def [symmetric] using lo by linarith
  show "x - of_int \<lfloor>x + 1 / 2\<rfloor> < 1 / 2"
    unfolding f_def [symmetric] using hi by linarith
qed

lemma text_content_string_child: "concat (map text_content (string_child s)) = s"
  by (simp add: string_child_def)

lemma to_double_082: "to_double (82 / 100) = Finite (7385903388887613 / 9007199254740992)"
  by code_simp

lemma product_082: "multiply (to_double (82 / 100)) (Finite 100) = Finite 82"
  by code_simp

lemma toFixed0_82: "toFixed0 digits (Finite 82) = ''82''"
  by code_simp

text \<open>
  C2. For a source whose score \<open>s\<close> is truthy (a number other than zero), the line shows,
  after a bullet, the text \<open>Score: \<close>, then \<open>(s * 100).toFixed(0)\<close>, then \<open>%\<close>. Where
  the binary64 product \<open>s * 100\<close> is finite and below \<open>10^21\<close> in magnitude, that is
  its sign and the decimal digits of the integer nearest to its magnitude, the larger of
  two equally near: the product rounded to zero decimal places. The score 0.82 of the
  scenario is rendered as \<open>Score: 82%\<close>.
\<close>

theorem score_is_rendered_as_rounded_percentage:
  assumes "ToBoolean s"
  shows "concat (map text_content (render_score digits (Some s))) =
           bullet @ ''Score: '' @ toFixed0 digits (multiply s (Finite 100)) @ ''%'' \<and>
         (\<forall>p. multiply s (Finite 100) = Finite p \<and> \<bar>p\<bar> < 10 ^ 21 \<longrightarrow>
            (\<exists>k. toFixed0 digits (multiply s (Finite 100)) =
                   (if p < 0 then ''-'' else []) @ decimal k \<and>
                 0 \<le> k \<and> - (1 / 2) \<le> \<bar>p\<bar> - of_int k \<and> \<bar>p\<bar> - of_int k < 1 / 2))"
proof (intro conjI allI impI)
  show "concat (map text_content (render_score digits (Some s))) =
           bullet @ ''Score: '' @ toFixed0 digits (multiply s (Finite 100)) @ ''%''"
    using assms by (simp add: render_score_def text_content_string_child)
next
  fix p
  assume "multiply s (Finite 100) = Finite p \<and> \<bar>p\<bar> < 10 ^ 21"
  then show "\<exists>k. toFixed0 digits (multiply s (Finite 100)) =
                   (if p < 0 then ''-'' else []) @ decimal k \<and>
                 0 \<le> k \<and> - (1 / 2) \<le> \<bar>p\<bar> - of_int k \<and> \<bar>p\<bar> - of_int k < 1 / 2"
    using toFixed0_small [of p digits] nearest_integer [of "\<bar>p\<bar>"]
    by (intro exI [of _ "\<lfloor>\<bar>p\<bar> + 1 / 2\<rfloor>"]) simp
qed

theorem score_is_rendered_as_rounded_percentage_witness:
  "ToBoolean (to_double (82 / 100)) \<and>
   multiply (to_double (82 / 100)) (Finite 100) = Finite 82 \<and>
   concat (map text_content (render_score (\<lambda>r. []) (Some (to_double (82 / 100))))) =
     bullet @ ''Score: 82%'' \<and>
   text_content (render_source (\<lambda>r. [])
     \<lparr>file = ''report.pdf'', project = ''6'', source_type = ''pdf'',
      score = Some (to_double (82 / 100))\<rparr>) =
     ''report.pdf'' @ bullet @ ''6'' @ bullet @ ''Score: 82%''"
proof -
  have t: "ToBoolean (to_double (82 / 100))"
    unfolding to_double_082 by simp
  have r: "concat (map text_content (render_score (\<lambda>r. []) (Some (to_double (82 / 100))))) =
     bullet @ ''Score: 82%''"
    using score_is_rendered_as_rounded_percentage [OF t, of "\<lambda>r. []"]
    unfolding product_082 toFixed0_82 by simp
  have c: "text_content (render_source d \<lparr>file = f, project = p, source_type = ty, score = sc\<rparr>) =
      f @ bullet @ p @ concat (map text_content (render_score d sc))" for d f p ty sc
    by (simp add: render_source_def string_child_def)
  show ?thesis
    unfolding c r using t product_082 by simp
qed

text \<open>
  C8 (at the failing input). A source whose score is the number 0: the operator \<open>&&\<close>
  returns the 0, and React renders a number child as text, so the line ends in a bare
  \<open>0\<close> after the project. A source without a score shows nothing after the project.
\<close>

theorem zero_score_renders_a_bare_zero:
  "render_score digits (Some (Finite 0)) = [Text ''0''] \<and>
   text_content (render_source digits
     \<lparr>file = ''report.pdf'', project = ''6'', source_type = ''pdf'', score = Some (Finite 0)\<rparr>) =
     ''report.pdf'' @ bullet @ ''6'' @ ''0'' \<and>
   render_score digits None = []"
  by (simp add: render_score_def render_source_def number_child_def Number_toString_def
      string_child_def)

section \<open>Properties of the microsite's App\<close>

lemma App_useEffect_cases:
  "App_useEffect g dec par st =
     (case g ''data'' of None \<Rightarrow> Inr st
      | Some p \<Rightarrow> if p = [] then Inr st else
          (case dec p of Inl e \<Rightarrow> Inr st
           | Inr s \<Rightarrow> (case par s of Inl e \<Rightarrow> Inr st
                        | Inr v \<Rightarrow> Inr (st\<lparr>dashboardData := parsedData v\<rparr>))))"
  by (simp add: App_useEffect_def split: option.split sum.split)

text \<open>
  C10. The effect never throws. Given that \<open>decodeURIComponent\<close> maps the empty string
  to itself and \<open>JSON.parse\<close> rejects it, the dashboard data is replaced by a value \<open>v\<close>
  exactly when the URL has a \<open>data\<close> parameter that decodes and parses to \<open>v\<close>; when
  the parameter is absent, or decoding or parsing it throws, the state is what it was and
  the built-in sample data is rendered.
\<close>

theorem microsite_data_parameter:
  assumes "decodeURIComponent [] = Inr []"
    and "JSON_parse [] = Inl SyntaxError"
  shows "(\<forall>e. App_useEffect urlParams_get decodeURIComponent JSON_parse App_initial \<noteq> Inl e) \<and>
         (\<forall>v. App_useEffect urlParams_get decodeURIComponent JSON_parse App_initial =
                Inr (App_initial\<lparr>dashboardData := parsedData v\<rparr>) \<longleftrightarrow>
              (\<exists>dataParam decoded. urlParams_get ''data'' = Some dataParam \<and>
                 decodeURIComponent dataParam = Inr decoded \<and> JSON_parse decoded = Inr v)) \<and>
         ((urlParams_get ''data'' = None \<or>
           (\<exists>dataParam e. urlParams_get ''data'' = Some dataParam \<and>
              (decodeURIComponent dataParam = Inl e \<or>
               (\<exists>decoded. decodeURIComponent dataParam = Inr decoded \<and>
                  JSON_parse decoded = Inl e)))) \<longrightarrow>
          App_useEffect urlParams_get decodeURIComponent JSON_parse App_initial = Inr App_initial \<and>
          App_render App_initial = Dashboard sampleData)"
proof (intro conjI allI impI)
  fix e
  show "App_useEffect urlParams_get decodeURIComponent JSON_parse App_initial \<noteq> Inl e"
    by (simp add: App_useEffect_cases split: option.split sum.split)
next
  fix v
  have ne: "App_initial\<lparr>dashboardData := parsedData w\<rparr> \<noteq> App_initial" for w
    by (simp add: App_initial_def)
  show "App_useEffect urlParams_get decodeURIComponent JSON_parse App_initial =
          Inr (App_initial\<lparr>dashboardData := parsedData v\<rparr>) \<longleftrightarrow>
        (\<exists>dataParam decoded. urlParams_get ''data'' = Some dataParam \<and>
           decodeURIComponent dataParam = Inr decoded \<and> JSON_parse decoded = Inr v)"
  proof (cases "urlParams_get ''data''")
    case None
    then show ?thesis
      using ne [of v] by (simp add: App_useEffect_cases)
  next
    case (Some p)
    show ?thesis
    proof (cases "p = []")
      case True
      then show ?thesis
        using Some assms ne [of v] by (simp add: App_useEffect_cases)
    next
      case False
      then show ?thesis
        using Some ne [of v]
        by (simp add: App_useEffect_cases App_initial_def split: sum.split)
    qed
  qed
next
  assume "urlParams_get ''data'' = None \<or>
           (\<exists>dataParam e. urlParams_get ''data'' = Some dataParam \<and>
              (decodeURIComponent dataParam = Inl e \<or>
               (\<exists>decoded. decodeURIComponent dataParam = Inr decoded \<and>
                  JSON_parse decoded = Inl e)))"
  then show "App_useEffect urlParams_get decodeURIComponent JSON_parse App_initial = Inr App_initial"
    by (auto simp: App_useEffect_cases)
next
  show "App_render App_initial = Dashboard sampleData"
    by (simp add: App_render_def App_initial_def)
qed

theorem microsite_data_parameter_witness:
  "App_useEffect (\<lambda>k. if k = ''data'' then Some ''{}'' else None)
     (\<lambda>s. if CHR ''%'' \<in> set s then Inl URIError else Inr s)
     (\<lambda>s. if s = ''{}'' then Inr (JObject []) else Inl SyntaxError) App_initial =
     Inr (App_initial\<lparr>dashboardData := parsedData (JObject [])\<rparr>) \<and>
   App_useEffect (\<lambda>k. None)
     (\<lambda>s. if CHR ''%'' \<in> set s then Inl URIError else Inr s)
     (\<lambda>s. if s = ''{}'' then Inr (JObject []) else Inl SyntaxError) App_initial =
     Inr App_initial \<and>
   App_useEffect (\<lambda>k. if k = ''data'' then Some ''{title'' else None)
     (\<lambda>s. if CHR ''%'' \<in> set s then Inl URIError else Inr s)
     (\<lambda>s. if s = ''{}'' then Inr (JObject []) else Inl SyntaxError) App_initial =
     Inr App_initial \<and>
   App_useEffect (\<lambda>k. if k = ''data'' then Some ''100%'' else None)
     (\<lambda>s. if CHR ''%'' \<in> set s then Inl URIError else Inr s)
     (\<lambda>s. if s = ''{}'' then Inr (JObject []) else Inl SyntaxError) App_initial =
     Inr App_initial \<and>
   App_render App_initial = Dashboard sampleData"
proof -
  let ?dec = "\<lambda>s. if CHR ''%'' \<in> set s then Inl URIError else Inr s"
  let ?par = "\<lambda>s. if s = ''{}'' then Inr (JObject []) else Inl SyntaxError"
  let ?g1 = "\<lambda>k. if k = ''data'' then Some ''{}'' else None"
  let ?g2 = "\<lambda>k :: string. None :: string option"
  let ?g3 = "\<lambda>k. if k = ''data'' then Some ''{title'' else None"
  let ?g4 = "\<lambda>k. if k = ''data'' then Some ''100%'' else None"
  have d: "?dec [] = Inr []" and p: "?par [] = Inl SyntaxError"
    by simp_all
  note i1 = microsite_data_parameter [of ?dec ?par ?g1, OF d p]
    and i2 = microsite_data_parameter [of ?dec ?par ?g2, OF d p]
    and i3 = microsite_data_parameter [of ?dec ?par ?g3, OF d p]
    and i4 = microsite_data_parameter [of ?dec ?par ?g4, OF d p]
  have a: "App_useEffect ?g1 ?dec ?par App_initial =
      Inr (App_initial\<lparr>dashboardData := parsedData (JObject [])\<rparr>)"
    using i1 [THEN conjunct2, THEN conjunct1, rule_format, of "JObject []"] by simp
  have b: "App_useEffect ?g2 ?dec ?par App_initial = Inr App_initial"
    using i2 [THEN conjunct2, THEN conjunct2] by simp
  have c: "App_useEffect ?g3 ?dec ?par App_initial = Inr App_initial"
    using i3 [THEN conjunct2, THEN conjunct2] by simp
  have e: "App_useEffect ?g4 ?dec ?par App_initial = Inr App_initial"
    using i4 [THEN conjunct2, THEN conjunct2] by simp
  have r: "App_render App_initial = Dashboard sampleData"
    using i2 [THEN conjunct2, THEN conjunct2] by simp
  from a b c e r show ?thesis
    by blast
qed

end
